theory Spec2Isabelle
  imports Main "HOL-Library.AList" "HOL-Library.Sublist"
begin

section \<open>Python values used by the service\<close>

text \<open>
  A Python \<^verbatim>\<open>str\<close> is a sequence of Unicode code points, so it is modelled as a list of
  natural numbers. \<open>lit\<close> embeds an ASCII literal of the source.
\<close>

type_synonym pystr = "nat list"

definition lit :: "string \<Rightarrow> pystr" where
  "lit s = map of_char s"

text \<open>
  \<^verbatim>\<open>str.isspace\<close> of one code point: the 29 code points Python 3 classifies as
  whitespace (U+0009..U+000D, U+001C..U+0020, U+0085, U+00A0, U+1680, U+2000..U+200A,
  U+2028, U+2029, U+202F, U+205F, U+3000).
\<close>

definition isspace :: "nat \<Rightarrow> bool" where
  "isspace c =
     ((9 \<le> c \<and> c \<le> 13) \<or> (28 \<le> c \<and> c \<le> 32) \<or> c = 133 \<or> c = 160 \<or> c = 5760 \<or>
      (8192 \<le> c \<and> c \<le> 8202) \<or> c = 8232 \<or> c = 8233 \<or> c = 8239 \<or> c = 8287 \<or>
      c = 12288)"

text \<open>\<^verbatim>\<open>s.strip()\<close>: leading and trailing whitespace removed.\<close>

definition strip :: "pystr \<Rightarrow> pystr" where
  "strip s = rev (dropWhile isspace (rev (dropWhile isspace s)))"

text \<open>\<^verbatim>\<open>a or b\<close> on strings: the empty string is falsy.\<close>

definition py_or :: "pystr \<Rightarrow> pystr \<Rightarrow> pystr" where
  "py_or a b = (if a = [] then b else a)"

text \<open>
  \<^verbatim>\<open>os.path.join(a, b)\<close> for two components (posixpath): an absolute \<open>b\<close> replaces
  \<open>a\<close>; otherwise a single separator stands between them.
\<close>

definition os_path_join :: "pystr \<Rightarrow> pystr \<Rightarrow> pystr" where
  "os_path_join a b =
     (if b \<noteq> [] \<and> hd b = 47 then b
      else if a = [] \<or> last a = 47 then a @ b
      else a @ [47] @ b)"

subsection \<open>Clock readings\<close>

text \<open>
  A value of \<^verbatim>\<open>datetime.utcnow()\<close>: a naive datetime with microsecond resolution.
\<close>

record datetime =
  year :: nat
  month :: nat
  day :: nat
  hour :: nat
  minute :: nat
  second :: nat
  microsecond :: nat

text \<open>
  The field ranges of a datetime. The year starts at 1000 here: below, the output of
  \<^verbatim>\<open>%Y\<close> depends on the platform's C library (some do not pad), and the clock of
  a running service is far above.
\<close>

definition valid_datetime :: "datetime \<Rightarrow> bool" where
  "valid_datetime d =
     (1000 \<le> year d \<and> year d \<le> 9999 \<and> 1 \<le> month d \<and> month d \<le> 12 \<and>
      1 \<le> day d \<and> day d \<le> 31 \<and> hour d < 24 \<and> minute d < 60 \<and> second d < 60 \<and>
      microsecond d < 1000000)"

text \<open>\<open>zpad k n\<close>: the last \<open>k\<close> decimal digits of \<open>n\<close>, zero padded (\<^verbatim>\<open>%02d\<close> and the like).\<close>

fun zpad :: "nat \<Rightarrow> nat \<Rightarrow> pystr" where
  "zpad 0 n = []"
| "zpad (Suc k) n = zpad k (n div 10) @ [48 + n mod 10]"

text \<open>\<^verbatim>\<open>d.strftime("%Y%m%d%H%M%S%f")\<close>\<close>

definition strftime :: "datetime \<Rightarrow> pystr" where
  "strftime d =
     zpad 4 (year d) @ zpad 2 (month d) @ zpad 2 (day d) @ zpad 2 (hour d) @
     zpad 2 (minute d) @ zpad 2 (second d) @ zpad 6 (microsecond d)"

text \<open>\<^verbatim>\<open>d.isoformat()\<close> of a naive datetime: the fraction is left out when it is zero.\<close>

definition isoformat :: "datetime \<Rightarrow> pystr" where
  "isoformat d =
     zpad 4 (year d) @ lit ''-'' @ zpad 2 (month d) @ lit ''-'' @ zpad 2 (day d) @ lit ''T'' @
     zpad 2 (hour d) @ lit '':'' @ zpad 2 (minute d) @ lit '':'' @ zpad 2 (second d) @
     (if microsecond d = 0 then [] else lit ''.'' @ zpad 6 (microsecond d))"

subsection \<open>Documents\<close>

text \<open>
  The values that occur in the documents the handlers build and read: \<^verbatim>\<open>None\<close>,
  strings, and the identifier the store assigns (an ObjectId, carried by its hexadecimal
  rendering). A \<^verbatim>\<open>dict\<close> is an association list in insertion order.
\<close>

datatype pyval = PyNone | PyStr pystr | PyObjectId pystr

fun py_str :: "pyval \<Rightarrow> pystr" where
  "py_str PyNone = lit ''None''"
| "py_str (PyStr s) = s"
| "py_str (PyObjectId h) = h"

type_synonym document = "(pystr \<times> pyval) list"

definition dict_contains :: "pystr \<Rightarrow> document \<Rightarrow> bool" where
  "dict_contains k d = (map_of d k \<noteq> None)"

definition dict_pop :: "pystr \<Rightarrow> document \<Rightarrow> document" where
  "dict_pop k d = AList.delete k d"

definition dict_set :: "pystr \<Rightarrow> pyval \<Rightarrow> document \<Rightarrow> document" where
  "dict_set k v d = AList.update k v d"

definition opt_val :: "pystr option \<Rightarrow> pyval" where
  "opt_val x = (case x of None \<Rightarrow> PyNone | Some s \<Rightarrow> PyStr s)"

section \<open>Data model (schemas.py, TTSResponse of main.py)\<close>

record Voice =
  v_name :: pystr
  v_description :: "pystr option"
  v_language :: pystr
  v_avatar_url :: "pystr option"
  v_samples :: "pystr list option"

record TTSJob =
  j_text :: pystr
  j_voice_id :: "pystr option"
  j_language :: pystr
  j_format :: pystr

record TTSResponse =
  r_id :: pystr
  r_text :: pystr
  r_voice_id :: "pystr option"
  r_language :: pystr
  r_format :: pystr
  r_status :: pystr
  r_audio_url :: "pystr option"
  r_created_at :: "pystr option"

subsection \<open>Request bodies and their validation\<close>

text \<open>
  A field of a JSON request body is absent, \<^verbatim>\<open>null\<close>, or a value of the field's
  JSON type.
\<close>

datatype 'a jfield = Missing | Null | Val 'a

record voice_body =
  vb_name :: "pystr jfield"
  vb_description :: "pystr jfield"
  vb_language :: "pystr jfield"
  vb_avatar_url :: "pystr jfield"
  vb_samples :: "pystr list jfield"

record tts_body =
  tb_text :: "pystr jfield"
  tb_voice_id :: "pystr jfield"
  tb_language :: "pystr jfield"
  tb_format :: "pystr jfield"

text \<open>A required field \<^verbatim>\<open>x: T = Field(...)\<close>.\<close>

fun required :: "'a jfield \<Rightarrow> 'a option" where
  "required (Val x) = Some x"
| "required Missing = None"
| "required Null = None"

text \<open>A field with a default \<^verbatim>\<open>x: T = Field(d)\<close>: \<^verbatim>\<open>null\<close> is not a \<open>T\<close>.\<close>

fun defaulted :: "'a \<Rightarrow> 'a jfield \<Rightarrow> 'a option" where
  "defaulted d Missing = Some d"
| "defaulted d Null = None"
| "defaulted d (Val x) = Some x"

text \<open>An optional field \<^verbatim>\<open>x: Optional[T] = Field(d)\<close>.\<close>

fun optional :: "'a option \<Rightarrow> 'a jfield \<Rightarrow> 'a option" where
  "optional d Missing = d"
| "optional d Null = None"
| "optional d (Val x) = Some x"

text \<open>
  Validation of a body as \<^verbatim>\<open>TTSJob\<close>: \<open>text\<close> is required, with
  \<^verbatim>\<open>min_length=1, max_length=2000\<close>; \<open>voice_id\<close> is optional; \<open>language\<close> and
  \<open>format\<close> default to \<^verbatim>\<open>"en"\<close> and \<^verbatim>\<open>"mp3"\<close>. \<open>None\<close> is a validation error.
\<close>

definition validate_TTSJob :: "tts_body \<Rightarrow> TTSJob option" where
  "validate_TTSJob b =
     (case required (tb_text b) of
        None \<Rightarrow> None
      | Some t \<Rightarrow>
          if \<not> (1 \<le> length t \<and> length t \<le> 2000) then None
          else
            (case defaulted (lit ''en'') (tb_language b) of
               None \<Rightarrow> None
             | Some l \<Rightarrow>
                 (case defaulted (lit ''mp3'') (tb_format b) of
                    None \<Rightarrow> None
                  | Some f \<Rightarrow>
                      Some \<lparr>j_text = t, j_voice_id = optional None (tb_voice_id b),
                            j_language = l, j_format = f\<rparr>)))"

section \<open>External collaborators\<close>

text \<open>
  An exception raised by a collaborator, with its message \<^verbatim>\<open>str(e)\<close>; a call returns
  \<open>Inl\<close> of it or \<open>Inr\<close> of its value.
\<close>

datatype exn = Exception pystr

fun exn_str :: "exn \<Rightarrow> pystr" where
  "exn_str (Exception m) = m"

text \<open>\<^verbatim>\<open>create_document\<close> takes a schema instance or a dict.\<close>

datatype payload = Model Voice | Dict document

text \<open>
  The module \<^verbatim>\<open>database\<close> (\<^verbatim>\<open>create_document\<close>, \<^verbatim>\<open>get_documents\<close>,
  \<^verbatim>\<open>db\<close>), the engine \<^verbatim>\<open>gtts.gTTS\<close> and the library functions whose result the
  handlers do not fix are parameters of the model: every outcome of a call, a raise
  included, is a possible value of the field.
  \<^item> \<open>db_present\<close>: \<^verbatim>\<open>db is not None\<close>;
  \<^item> \<open>gTTS\<close>: the constructor \<^verbatim>\<open>gTTS(text=, lang=)\<close>;
  \<^item> \<open>gTTS_save\<close>: \<^verbatim>\<open>tts.save(fpath)\<close> of the object built from text and lang,
    the only place where a handler writes a file;
  \<^item> \<open>create_document\<close>: collection and payload to the new identifier;
  \<^item> \<open>get_documents\<close>: collection and \<^verbatim>\<open>limit\<close> (\<open>None\<close> when not passed);
  \<^item> \<open>str_lower\<close>: \<^verbatim>\<open>str.lower\<close>;
  \<^item> \<open>is_http_url\<close>: whether a string parses as \<^verbatim>\<open>HttpUrl\<close>;
  \<^item> \<open>OUTPUT_DIR\<close>: the module constant, computed from the working directory.
\<close>

record env =
  db_present :: bool
  gTTS :: "pystr \<Rightarrow> pystr \<Rightarrow> exn + unit"
  gTTS_save :: "pystr \<Rightarrow> pystr \<Rightarrow> pystr \<Rightarrow> exn + unit"
  create_document :: "pystr \<Rightarrow> payload \<Rightarrow> exn + pystr"
  get_documents :: "pystr \<Rightarrow> int option \<Rightarrow> exn + document list"
  str_lower :: "pystr \<Rightarrow> pystr"
  is_http_url :: "pystr \<Rightarrow> bool"
  OUTPUT_DIR :: pystr

text \<open>The calls a handler makes to its collaborators, in order.\<close>

datatype call =
    Call_gTTS pystr pystr
  | Call_save pystr pystr pystr
  | Call_create_document pystr payload
  | Call_get_documents pystr "int option"

text \<open>
  Validation of a body as \<^verbatim>\<open>Voice\<close>: \<open>name\<close> and \<open>language\<close> are required
  strings (no length constraint); \<open>avatar_url\<close>, when given, must parse as a URL;
  \<open>samples\<close> defaults to the empty list.
\<close>

definition validate_Voice :: "env \<Rightarrow> voice_body \<Rightarrow> Voice option" where
  "validate_Voice e b =
     (case required (vb_name b) of
        None \<Rightarrow> None
      | Some n \<Rightarrow>
          (case required (vb_language b) of
             None \<Rightarrow> None
           | Some l \<Rightarrow>
               (case optional None (vb_avatar_url b) of
                  Some u \<Rightarrow>
                    if is_http_url e u then
                      Some \<lparr>v_name = n, v_description = optional None (vb_description b),
                            v_language = l, v_avatar_url = Some u,
                            v_samples = optional (Some []) (vb_samples b)\<rparr>
                    else None
                | None \<Rightarrow>
                    Some \<lparr>v_name = n, v_description = optional None (vb_description b),
                          v_language = l, v_avatar_url = None,
                          v_samples = optional (Some []) (vb_samples b)\<rparr>)))"

section \<open>Handlers (main.py)\<close>

text \<open>
  A handler returns a value (status 200) or raises \<^verbatim>\<open>HTTPException(status_code,
  detail)\<close>; a body that fails validation never reaches the handler and the framework
  answers 422.
\<close>

datatype http_error = HTTPException nat pystr | RequestValidationError

fun status_code :: "http_error + 'a \<Rightarrow> nat" where
  "status_code (Inr _) = 200"
| "status_code (Inl (HTTPException c _)) = c"
| "status_code (Inl RequestValidationError) = 422"

subsection \<open>Voices\<close>

definition voice_dict :: "string \<Rightarrow> string \<Rightarrow> string \<Rightarrow> string \<Rightarrow> document" where
  "voice_dict n d l a =
     [(lit ''name'', PyStr (lit n)), (lit ''description'', PyStr (lit d)),
      (lit ''language'', PyStr (lit l)), (lit ''avatar_url'', PyStr (lit a))]"

definition DEFAULT_VOICES :: "document list" where
  "DEFAULT_VOICES =
     [voice_dict ''Nova'' ''Warm, clear American English voice'' ''en''
        ''https://images.unsplash.com/photo-1544005313-94ddf0286df2?q=80&w=400&auto=format&fit=crop'',
      voice_dict ''Aria'' ''Natural British English voice'' ''en-GB''
        ''https://images.unsplash.com/photo-1547425260-76bcadfb4f2c?q=80&w=400&auto=format&fit=crop'',
      voice_dict ''Sora'' ''Smooth Japanese voice'' ''ja''
        ''https://images.unsplash.com/photo-1545996124-0501ebae84d0?q=80&w=400&auto=format&fit=crop'',
      voice_dict ''Mateo'' ''Crisp Spanish voice'' ''es''
        ''https://images.unsplash.com/photo-1527980965255-d3b416303d12?q=80&w=400&auto=format&fit=crop'']"

text \<open>
  \<^verbatim>\<open>list_voices\<close>: the store is read only when \<^verbatim>\<open>db is not None\<close>; \<^verbatim>\<open>_id\<close> is
  popped from each document; an empty result and any exception give the default list.
\<close>

definition list_voices :: "env \<Rightarrow> document list \<times> call list" where
  "list_voices e =
     (if db_present e then
        (case get_documents e (lit ''voice'') None of
           Inl x \<Rightarrow> (DEFAULT_VOICES, [Call_get_documents (lit ''voice'') None])
         | Inr voices \<Rightarrow>
             (let voices' = map (dict_pop (lit ''_id'')) voices
              in (if voices' = [] then DEFAULT_VOICES else voices',
                  [Call_get_documents (lit ''voice'') None])))
      else (DEFAULT_VOICES, []))"

definition create_voice :: "env \<Rightarrow> Voice \<Rightarrow> (http_error + pystr) \<times> call list" where
  "create_voice e voice =
     (case create_document e (lit ''voice'') (Model voice) of
        Inr vid \<Rightarrow> (Inr vid, [Call_create_document (lit ''voice'') (Model voice)])
      | Inl x \<Rightarrow>
          (Inl (HTTPException 500 (exn_str x)),
           [Call_create_document (lit ''voice'') (Model voice)]))"

text \<open>\<^verbatim>\<open>POST /api/voices\<close>: the body is validated as \<^verbatim>\<open>Voice\<close>, then handled.\<close>

definition post_voices :: "env \<Rightarrow> voice_body \<Rightarrow> (http_error + pystr) \<times> call list" where
  "post_voices e b =
     (case validate_Voice e b of
        None \<Rightarrow> (Inl RequestValidationError, [])
      | Some voice \<Rightarrow> create_voice e voice)"

subsection \<open>Synthesis\<close>

text \<open>The file name of a synthesis: built from the first clock reading and the format.\<close>

definition tts_ext :: "env \<Rightarrow> TTSJob \<Rightarrow> pystr" where
  "tts_ext e job =
     (if str_lower e (py_or (j_format job) (lit ''mp3'')) = lit ''mp3'' then lit ''mp3''
      else lit ''mp3'')"

definition tts_fname :: "env \<Rightarrow> datetime \<Rightarrow> TTSJob \<Rightarrow> pystr" where
  "tts_fname e now job = lit ''tts_'' @ strftime now @ lit ''.'' @ tts_ext e job"

definition tts_audio_url :: "env \<Rightarrow> datetime \<Rightarrow> TTSJob \<Rightarrow> pystr" where
  "tts_audio_url e now job = lit ''/generated/'' @ tts_fname e now job"

text \<open>The job document handed to the store.\<close>

definition tts_doc :: "env \<Rightarrow> datetime \<Rightarrow> TTSJob \<Rightarrow> document" where
  "tts_doc e now job =
     [(lit ''text'', PyStr (strip (j_text job))),
      (lit ''voice_id'', opt_val (j_voice_id job)),
      (lit ''language'', PyStr (py_or (j_language job) (lit ''en''))),
      (lit ''format'', PyStr (py_or (j_format job) (lit ''mp3''))),
      (lit ''status'', PyStr (lit ''completed'')),
      (lit ''audio_url'', PyStr (tts_audio_url e now job))]"

text \<open>
  \<^verbatim>\<open>synthesize_speech(job)\<close>. \<open>now\<close> is the clock reading that names the file,
  \<open>now'\<close> the one taken when the response is built. The import of the engine at the
  head of the function is taken to succeed. The second component lists the calls made.
\<close>

definition synthesize_speech ::
  "env \<Rightarrow> datetime \<Rightarrow> datetime \<Rightarrow> TTSJob \<Rightarrow> (http_error + TTSResponse) \<times> call list" where
  "synthesize_speech e now now' job =
     (let text = strip (j_text job) in
      if text = [] then (Inl (HTTPException 400 (lit ''Text is required'')), [])
      else
        (let fname = tts_fname e now job;
             fpath = os_path_join (OUTPUT_DIR e) fname;
             lang = py_or (j_language job) (lit ''en'')
         in
           (case gTTS e text lang of
              Inl x \<Rightarrow>
                (Inl (HTTPException 500 (lit ''TTS error: '' @ exn_str x)),
                 [Call_gTTS text lang])
            | Inr _ \<Rightarrow>
                (case gTTS_save e text lang fpath of
                   Inl x \<Rightarrow>
                     (Inl (HTTPException 500 (lit ''TTS error: '' @ exn_str x)),
                      [Call_gTTS text lang, Call_save text lang fpath])
                 | Inr _ \<Rightarrow>
                     (let audio_url = tts_audio_url e now job;
                          doc = tts_doc e now job;
                          job_id = (case create_document e (lit ''ttsjob'') (Dict doc) of
                                      Inr i \<Rightarrow> i
                                    | Inl x \<Rightarrow> [])
                      in
                        (Inr \<lparr>r_id = job_id, r_text = text, r_voice_id = j_voice_id job,
                              r_language = py_or (j_language job) (lit ''en''),
                              r_format = py_or (j_format job) (lit ''mp3''),
                              r_status = lit ''completed'',
                              r_audio_url = Some audio_url,
                              r_created_at = Some (isoformat now')\<rparr>,
                         [Call_gTTS text lang, Call_save text lang fpath,
                          Call_create_document (lit ''ttsjob'') (Dict doc)]))))))"

text \<open>\<^verbatim>\<open>POST /api/tts\<close>: the body is validated as \<^verbatim>\<open>TTSJob\<close>, then handled.\<close>

definition post_tts ::
  "env \<Rightarrow> datetime \<Rightarrow> datetime \<Rightarrow> tts_body \<Rightarrow> (http_error + TTSResponse) \<times> call list" where
  "post_tts e now now' b =
     (case validate_TTSJob b of
        None \<Rightarrow> (Inl RequestValidationError, [])
      | Some job \<Rightarrow> synthesize_speech e now now' job)"

subsection \<open>Jobs\<close>

text \<open>The loop body of \<^verbatim>\<open>list_jobs\<close>: \<^verbatim>\<open>_id\<close>, when present, moves to \<^verbatim>\<open>id\<close> as a string.\<close>

definition expose_id :: "document \<Rightarrow> document" where
  "expose_id j =
     (if dict_contains (lit ''_id'') j then
        (case map_of j (lit ''_id'') of
           Some v \<Rightarrow> dict_set (lit ''id'') (PyStr (py_str v)) (dict_pop (lit ''_id'') j)
         | None \<Rightarrow> j)
      else j)"

definition list_jobs :: "env \<Rightarrow> int \<Rightarrow> document list \<times> call list" where
  "list_jobs e limit =
     (case get_documents e (lit ''ttsjob'') (Some limit) of
        Inr jobs \<Rightarrow> (map expose_id jobs, [Call_get_documents (lit ''ttsjob'') (Some limit)])
      | Inl x \<Rightarrow> ([], [Call_get_documents (lit ''ttsjob'') (Some limit)]))"

text \<open>\<^verbatim>\<open>GET /api/jobs\<close>: the query parameter \<^verbatim>\<open>limit\<close> defaults to 20.\<close>

definition get_jobs :: "env \<Rightarrow> int option \<Rightarrow> document list \<times> call list" where
  "get_jobs e q = list_jobs e (case q of None \<Rightarrow> 20 | Some n \<Rightarrow> n)"

subsection \<open>Derived notions used in the statements\<close>

text \<open>The path handed to \<^verbatim>\<open>tts.save\<close>.\<close>

definition tts_fpath :: "env \<Rightarrow> datetime \<Rightarrow> TTSJob \<Rightarrow> pystr" where
  "tts_fpath e now job = os_path_join (OUTPUT_DIR e) (tts_fname e now job)"

text \<open>
  The outcome of the generation step (the \<^verbatim>\<open>try\<close> block around the constructor and
  \<^verbatim>\<open>save\<close>): the first exception raised, or success.
\<close>

definition tts_outcome :: "env \<Rightarrow> datetime \<Rightarrow> TTSJob \<Rightarrow> exn + unit" where
  "tts_outcome e now job =
     (case gTTS e (strip (j_text job)) (py_or (j_language job) (lit ''en'')) of
        Inl x \<Rightarrow> Inl x
      | Inr _ \<Rightarrow>
          gTTS_save e (strip (j_text job)) (py_or (j_language job) (lit ''en''))
            (tts_fpath e now job))"

fun is_gTTS :: "call \<Rightarrow> bool" where
  "is_gTTS (Call_gTTS _ _) = True"
| "is_gTTS _ = False"

fun is_save :: "call \<Rightarrow> bool" where
  "is_save (Call_save _ _ _) = True"
| "is_save _ = False"

fun is_create_document :: "call \<Rightarrow> bool" where
  "is_create_document (Call_create_document _ _) = True"
| "is_create_document _ = False"

subsection \<open>Concrete inputs\<close>

definition ascii_lower :: "pystr \<Rightarrow> pystr" where
  "ascii_lower s = map (\<lambda>c. if 65 \<le> c \<and> c \<le> 90 then c + 32 else c) s"

text \<open>A world in which every collaborator succeeds and the store is empty.\<close>

definition env_ok :: env where
  "env_ok =
     \<lparr>db_present = True,
      gTTS = (\<lambda>t l. Inr ()),
      gTTS_save = (\<lambda>t l p. Inr ()),
      create_document = (\<lambda>c p. Inr (lit ''65f0c2a4e1b7d9a3c5e8f012'')),
      get_documents = (\<lambda>c l. Inr []),
      str_lower = ascii_lower,
      is_http_url = (\<lambda>u. prefix (lit ''http://'') u \<or> prefix (lit ''https://'') u),
      OUTPUT_DIR = lit ''/app/generated''\<rparr>"

text \<open>The engine cannot be reached: \<^verbatim>\<open>save\<close> raises.\<close>

definition env_tts_down :: env where
  "env_tts_down =
     env_ok\<lparr>gTTS_save := (\<lambda>t l p. Inl (Exception (lit ''Connection error'')))\<rparr>"

text \<open>The store rejects the write of a document.\<close>

definition env_insert_fails :: env where
  "env_insert_fails =
     env_ok\<lparr>create_document := (\<lambda>c p. Inl (Exception (lit ''Database not available'')))\<rparr>"

text \<open>The store rejects every write and every read.\<close>

definition env_db_down :: env where
  "env_db_down =
     env_ok\<lparr>create_document := (\<lambda>c p. Inl (Exception (lit ''Database not available''))),
            get_documents := (\<lambda>c l. Inl (Exception (lit ''Database not available'')))\<rparr>"

definition job_hello :: TTSJob where
  "job_hello =
     \<lparr>j_text = lit '' Hello world '', j_voice_id = None, j_language = lit ''en'',
      j_format = lit ''wav''\<rparr>"

definition body_hello :: tts_body where
  "body_hello =
     \<lparr>tb_text = Val (lit '' Hello world ''), tb_voice_id = Missing, tb_language = Val (lit ''en''),
      tb_format = Val (lit ''wav'')\<rparr>"

definition t0 :: datetime where
  "t0 = \<lparr>year = 2024, month = 1, day = 2, hour = 3, minute = 4, second = 5, microsecond = 6\<rparr>"

definition t1 :: datetime where
  "t1 = \<lparr>year = 2024, month = 1, day = 2, hour = 3, minute = 4, second = 5,
          microsecond = 812345\<rparr>"

text \<open>A reading taken later within the same second as \<open>t1\<close>.\<close>

definition t2 :: datetime where
  "t2 = \<lparr>year = 2024, month = 1, day = 2, hour = 3, minute = 4, second = 5,
          microsecond = 900000\<rparr>"

definition resp_hello :: TTSResponse where
  "resp_hello =
     \<lparr>r_id = lit ''65f0c2a4e1b7d9a3c5e8f012'', r_text = lit ''Hello world'',
      r_voice_id = None, r_language = lit ''en'', r_format = lit ''wav'',
      r_status = lit ''completed'',
      r_audio_url = Some (lit ''/generated/tts_20240102030405000006.mp3''),
      r_created_at = Some (lit ''2024-01-02T03:04:05.812345'')\<rparr>"

text \<open>\<^verbatim>\<open>POST /api/tts {"text": ""}\<close>\<close>

definition body_empty_text :: tts_body where
  "body_empty_text =
     \<lparr>tb_text = Val [], tb_voice_id = Missing, tb_language = Missing, tb_format = Missing\<rparr>"

text \<open>\<^verbatim>\<open>POST /api/tts {"text": "   "}\<close>\<close>

definition body_spaces :: tts_body where
  "body_spaces =
     \<lparr>tb_text = Val (lit ''   ''), tb_voice_id = Missing, tb_language = Missing,
      tb_format = Missing\<rparr>"

text \<open>\<^verbatim>\<open>POST /api/tts {"text": " Hello world ", "language": "en", "format": ""}\<close>\<close>

definition body_empty_format :: tts_body where
  "body_empty_format =
     \<lparr>tb_text = Val (lit '' Hello world ''), tb_voice_id = Missing,
      tb_language = Val (lit ''en''), tb_format = Val []\<rparr>"

text \<open>\<^verbatim>\<open>POST /api/voices {"name": "", "language": "en"}\<close>\<close>

definition body_unnamed_voice :: voice_body where
  "body_unnamed_voice =
     \<lparr>vb_name = Val [], vb_description = Missing, vb_language = Val (lit ''en''),
      vb_avatar_url = Missing, vb_samples = Missing\<rparr>"

text \<open>\<^verbatim>\<open>POST /api/voices {"language": "en"}\<close>\<close>

definition body_nameless_voice :: voice_body where
  "body_nameless_voice =
     \<lparr>vb_name = Missing, vb_description = Missing, vb_language = Val (lit ''en''),
      vb_avatar_url = Missing, vb_samples = Missing\<rparr>"

text \<open>A store that holds one registered voice.\<close>

definition stored_voice :: document where
  "stored_voice =
     [(lit ''_id'', PyObjectId (lit ''65f0c2a4e1b7d9a3c5e8f0aa'')),
      (lit ''name'', PyStr (lit ''Luna'')), (lit ''language'', PyStr (lit ''fr''))]"

definition env_one_voice :: env where
  "env_one_voice = env_ok\<lparr>get_documents := (\<lambda>c l. Inr [stored_voice])\<rparr>"

text \<open>
  Modelled from the spec: \<^verbatim>\<open>get_documents\<close> lives in the module \<^verbatim>\<open>database\<close>, which
  is not among the sources. The spec's Persistence Gateway gives
  \<^verbatim>\<open>find(collection_name, limit)\<close> as an ordered sequence of the collection's documents,
  and \<^verbatim>\<open>GET /api/jobs?limit=N\<close> as "up to N persisted jobs": the first \<open>N\<close> of the
  stored documents, all of them when no limit is passed.
\<close>

definition find_spec :: "document list \<Rightarrow> int option \<Rightarrow> document list" where
  "find_spec stored lim = (case lim of None \<Rightarrow> stored | Some n \<Rightarrow> take (nat n) stored)"

text \<open>A store that holds five jobs.\<close>

definition stored_job :: "string \<Rightarrow> string \<Rightarrow> document" where
  "stored_job i t =
     [(lit ''_id'', PyObjectId (lit i)), (lit ''text'', PyStr (lit t)),
      (lit ''status'', PyStr (lit ''completed''))]"

definition five_jobs :: "document list" where
  "five_jobs =
     [stored_job ''a1'' ''one'', stored_job ''a2'' ''two'', stored_job ''a3'' ''three'',
      stored_job ''a4'' ''four'', stored_job ''a5'' ''five'']"

definition env_five_jobs :: env where
  "env_five_jobs = env_ok\<lparr>get_documents := (\<lambda>c l. Inr (find_spec five_jobs l))\<rparr>"

section \<open>Properties\<close>

subsection \<open>Strings and clock readings\<close>

lemma strip_empty_iff: "strip s = [] \<longleftrightarrow> (\<forall>c\<in>set s. isspace c)"
proof
  assume "strip s = []"
  then have all: "\<forall>c\<in>set (dropWhile isspace s). isspace c"
    by (simp add: strip_def)
  show "\<forall>c\<in>set s. isspace c"
  proof (cases "dropWhile isspace s")
    case Nil
    then show ?thesis by simp
  next
    case (Cons x xs)
    then have "\<not> isspace x" using hd_dropWhile [of isspace s] by simp
    with all Cons show ?thesis by simp
  qed
next
  assume "\<forall>c\<in>set s. isspace c"
  then have e: "dropWhile isspace s = []" by simp
  show "strip s = []" unfolding strip_def e by simp
qed

lemma length_zpad: "length (zpad k n) = k"
  by (induction k arbitrary: n) simp_all

lemma digits_zpad: "c \<in> set (zpad k n) \<Longrightarrow> 48 \<le> c \<and> c \<le> 57"
proof (induction k arbitrary: n)
  case 0
  then show ?case by simp
next
  case (Suc k)
  have "n mod 10 < 10" by simp
  with Suc show ?case by auto
qed

lemma zpad_inj: "n < 10 ^ k \<Longrightarrow> m < 10 ^ k \<Longrightarrow> zpad k n = zpad k m \<Longrightarrow> n = m"
proof (induction k arbitrary: n m)
  case 0
  then show ?case by simp
next
  case (Suc k)
  from Suc.prems(3) have eq: "zpad k (n div 10) = zpad k (m div 10)" and r: "n mod 10 = m mod 10"
    by simp_all
  from Suc.prems(1,2) have "n div 10 < 10 ^ k" "m div 10 < 10 ^ k"
    by (simp_all add: less_mult_imp_div_less mult.commute)
  with eq Suc.IH have "n div 10 = m div 10" by blast
  with r show ?case by (metis div_mult_mod_eq)
qed

lemma length_strftime: "length (strftime d) = 20"
  by (simp add: strftime_def length_zpad)

lemma digits_strftime: "c \<in> set (strftime d) \<Longrightarrow> 48 \<le> c \<and> c \<le> 57"
  unfolding strftime_def using digits_zpad by auto

lemma strftime_fields:
  assumes "strftime a = strftime b"
  shows "zpad 4 (year a) = zpad 4 (year b) \<and> zpad 2 (month a) = zpad 2 (month b) \<and>
    zpad 2 (day a) = zpad 2 (day b) \<and> zpad 2 (hour a) = zpad 2 (hour b) \<and>
    zpad 2 (minute a) = zpad 2 (minute b) \<and> zpad 2 (second a) = zpad 2 (second b) \<and>
    zpad 6 (microsecond a) = zpad 6 (microsecond b)"
  using assms unfolding strftime_def by (simp add: length_zpad)

lemma strftime_inj:
  assumes "valid_datetime a" and "valid_datetime b" and "strftime a = strftime b"
  shows "a = b"
proof -
  note f = strftime_fields [OF assms(3)]
  note va = assms(1) [unfolded valid_datetime_def]
  note vb = assms(2) [unfolded valid_datetime_def]
  have "year a = year b"
    using zpad_inj [of "year a" 4 "year b"] f va vb by simp
  moreover have "month a = month b"
    using zpad_inj [of "month a" 2 "month b"] f va vb by simp
  moreover have "day a = day b"
    using zpad_inj [of "day a" 2 "day b"] f va vb by simp
  moreover have "hour a = hour b"
    using zpad_inj [of "hour a" 2 "hour b"] f va vb by simp
  moreover have "minute a = minute b"
    using zpad_inj [of "minute a" 2 "minute b"] f va vb by simp
  moreover have "second a = second b"
    using zpad_inj [of "second a" 2 "second b"] f va vb by simp
  moreover have "microsecond a = microsecond b"
    using zpad_inj [of "microsecond a" 6 "microsecond b"] f va vb by simp
  ultimately show ?thesis by (intro datetime.equality) simp_all
qed

subsection \<open>The synthesis handler\<close>

lemma tts_ext_mp3: "tts_ext e job = lit ''mp3''"
  by (simp add: tts_ext_def)

lemma tts_fname_eq: "tts_fname e now job = lit ''tts_'' @ strftime now @ lit ''.mp3''"
  by (simp add: tts_fname_def tts_ext_mp3 lit_def)

lemma tts_audio_url_eq:
  "tts_audio_url e now job = lit ''/generated/tts_'' @ strftime now @ lit ''.mp3''"
  by (simp add: tts_audio_url_def tts_fname_eq lit_def)

lemma synthesize_speech_blank:
  assumes "strip (j_text job) = []"
  shows "synthesize_speech e now now' job =
           (Inl (HTTPException 400 (lit ''Text is required'')), [])"
  using assms by (simp add: synthesize_speech_def)

lemma synthesize_speech_raises:
  assumes "strip (j_text job) \<noteq> []" and "tts_outcome e now job = Inl x"
  shows "fst (synthesize_speech e now now' job) =
           Inl (HTTPException 500 (lit ''TTS error: '' @ exn_str x)) \<and>
         (snd (synthesize_speech e now now' job) =
            [Call_gTTS (strip (j_text job)) (py_or (j_language job) (lit ''en''))] \<or>
          snd (synthesize_speech e now now' job) =
            [Call_gTTS (strip (j_text job)) (py_or (j_language job) (lit ''en'')),
             Call_save (strip (j_text job)) (py_or (j_language job) (lit ''en''))
               (tts_fpath e now job)])"
  using assms
  by (auto simp: synthesize_speech_def tts_outcome_def tts_fpath_def Let_def split: sum.splits)

lemma synthesize_speech_ok:
  assumes "strip (j_text job) \<noteq> []" and "tts_outcome e now job = Inr ()"
  shows "synthesize_speech e now now' job =
     (Inr \<lparr>r_id = (case create_document e (lit ''ttsjob'') (Dict (tts_doc e now job)) of
                     Inr i \<Rightarrow> i | Inl x \<Rightarrow> []),
           r_text = strip (j_text job), r_voice_id = j_voice_id job,
           r_language = py_or (j_language job) (lit ''en''),
           r_format = py_or (j_format job) (lit ''mp3''),
           r_status = lit ''completed'',
           r_audio_url = Some (tts_audio_url e now job),
           r_created_at = Some (isoformat now')\<rparr>,
      [Call_gTTS (strip (j_text job)) (py_or (j_language job) (lit ''en'')),
       Call_save (strip (j_text job)) (py_or (j_language job) (lit ''en'')) (tts_fpath e now job),
       Call_create_document (lit ''ttsjob'') (Dict (tts_doc e now job))])"
  using assms
  by (auto simp: synthesize_speech_def tts_outcome_def tts_fpath_def Let_def split: sum.splits)

lemma synthesize_speech_audio_url:
  assumes "fst (synthesize_speech e now now' job) = Inr r"
  shows "r_audio_url r = Some (tts_audio_url e now job)"
  using assms
  by (auto simp: synthesize_speech_def Let_def split: sum.splits if_splits)

lemma synthesize_speech_save_path:
  assumes "Call_save t l p \<in> set (snd (synthesize_speech e now now' job))"
  shows "p = tts_fpath e now job"
  using assms
  by (auto simp: synthesize_speech_def tts_fpath_def Let_def split: sum.splits if_splits)

text \<open>The generation outcome and the job document do not depend on the store.\<close>

lemma tts_doc_create_document [simp]:
  "tts_doc (e\<lparr>create_document := cd\<rparr>) now job = tts_doc e now job"
  by (simp add: tts_doc_def tts_audio_url_eq)

lemma tts_outcome_create_document [simp]:
  "tts_outcome (e\<lparr>create_document := cd\<rparr>) now job = tts_outcome e now job"
  by (simp add: tts_outcome_def tts_fpath_def tts_fname_eq cong: sum.case_cong)

subsection \<open>Evaluation at the concrete inputs\<close>

lemma zpad_2: "zpad 2 n = [48 + n div 10 mod 10, 48 + n mod 10]"
proof -
  have "zpad (Suc (Suc 0)) n = [48 + n div 10 mod 10, 48 + n mod 10]" by simp
  then show ?thesis by (simp add: numeral_2_eq_2)
qed

lemma zpad_4:
  "zpad 4 n = [48 + n div 10 div 10 div 10 mod 10, 48 + n div 10 div 10 mod 10, 48 + n div 10 mod 10, 48 + n mod 10]"
proof -
  have "zpad (Suc (Suc (Suc (Suc 0)))) n =
      [48 + n div 10 div 10 div 10 mod 10, 48 + n div 10 div 10 mod 10, 48 + n div 10 mod 10, 48 + n mod 10]"
    by simp
  moreover have "(4::nat) = Suc (Suc (Suc (Suc 0)))" by simp
  then have "zpad 4 n = zpad (Suc (Suc (Suc (Suc 0)))) n"
    by (rule arg_cong [where f = "\<lambda>k. zpad k n"])
  ultimately show ?thesis by (rule ssubst [rotated])
qed

lemma zpad_6:
  "zpad 6 n = [48 + n div 10 div 10 div 10 div 10 div 10 mod 10, 48 + n div 10 div 10 div 10 div 10 mod 10, 48 + n div 10 div 10 div 10 mod 10,
               48 + n div 10 div 10 mod 10, 48 + n div 10 mod 10, 48 + n mod 10]"
proof -
  have "zpad (Suc (Suc (Suc (Suc (Suc (Suc 0)))))) n =
      [48 + n div 10 div 10 div 10 div 10 div 10 mod 10, 48 + n div 10 div 10 div 10 div 10 mod 10, 48 + n div 10 div 10 div 10 mod 10,
       48 + n div 10 div 10 mod 10, 48 + n div 10 mod 10, 48 + n mod 10]"
    by simp
  moreover have "(6::nat) = Suc (Suc (Suc (Suc (Suc (Suc 0)))))" by simp
  then have "zpad 6 n = zpad (Suc (Suc (Suc (Suc (Suc (Suc 0)))))) n"
    by (rule arg_cong [where f = "\<lambda>k. zpad k n"])
  ultimately show ?thesis by (rule ssubst [rotated])
qed

lemma strip_hello: "strip (j_text job_hello) = lit ''Hello world''"
  by (simp add: job_hello_def strip_def lit_def isspace_def)

lemma strftime_t0: "strftime t0 = lit ''20240102030405000006''"
  by (simp add: strftime_def t0_def zpad_2 zpad_4 zpad_6 lit_def)

lemma isoformat_t1: "isoformat t1 = lit ''2024-01-02T03:04:05.812345''"
  by (simp add: isoformat_def t1_def zpad_2 zpad_4 zpad_6 lit_def)

lemma isoformat_t2: "isoformat t2 = lit ''2024-01-02T03:04:05.900000''"
  by (simp add: isoformat_def t2_def zpad_2 zpad_4 zpad_6 lit_def)

lemma valid_t0: "valid_datetime t0"
  by (simp add: valid_datetime_def t0_def)

lemma valid_t1: "valid_datetime t1"
  by (simp add: valid_datetime_def t1_def)

lemma tts_outcome_ok: "tts_outcome env_ok t0 job_hello = Inr ()"
  by (simp add: tts_outcome_def env_ok_def)

lemma tts_outcome_insert_fails: "tts_outcome env_insert_fails t0 job_hello = Inr ()"
  by (simp add: tts_outcome_def env_insert_fails_def env_ok_def)

lemma tts_outcome_down:
  "tts_outcome env_tts_down t0 job_hello = Inl (Exception (lit ''Connection error''))"
  by (simp add: tts_outcome_def env_tts_down_def env_ok_def)

lemma strip_hello_nonempty: "strip (j_text job_hello) \<noteq> []"
  by (simp add: strip_hello lit_def)

lemma synthesize_hello:
  "fst (synthesize_speech env_ok t0 t1 job_hello) = Inr resp_hello"
  by (simp add: synthesize_speech_ok [OF strip_hello_nonempty tts_outcome_ok] strip_hello
      isoformat_t1 tts_audio_url_eq strftime_t0 resp_hello_def)
     (simp add: env_ok_def job_hello_def py_or_def lit_def)

lemma synthesize_hello_later:
  "fst (synthesize_speech env_ok t0 t2 job_hello) =
     Inr (resp_hello\<lparr>r_created_at := Some (lit ''2024-01-02T03:04:05.900000'')\<rparr>)"
  by (simp add: synthesize_speech_ok [OF strip_hello_nonempty tts_outcome_ok] strip_hello
      isoformat_t2 tts_audio_url_eq strftime_t0 resp_hello_def)
     (simp add: env_ok_def job_hello_def py_or_def lit_def)

lemma validate_body_hello: "validate_TTSJob body_hello = Some job_hello"
  by (simp add: validate_TTSJob_def body_hello_def job_hello_def lit_def)

section \<open>The claims\<close>

subsection \<open>Failures of the collaborators, file names and the response\<close>

text \<open>
  C1. When the generation step succeeds and the insert of the job document raises, the
  handler still returns a response (status 200): it is the response of the same request
  in a world where the insert returns an identifier, with the empty string as \<open>id\<close>;
  in particular the \<open>audio_url\<close> is the same.
\<close>

theorem insert_failure_degrades_to_empty_id:
  assumes "strip (j_text job) \<noteq> []"
    and "tts_outcome e now job = Inr ()"
    and "create_document e (lit ''ttsjob'') (Dict (tts_doc e now job)) = Inl x"
    and "cd (lit ''ttsjob'') (Dict (tts_doc e now job)) = Inr i"
  shows "\<exists>r. fst (synthesize_speech (e\<lparr>create_document := cd\<rparr>) now now' job) = Inr r \<and>
             r_id r = i \<and>
             fst (synthesize_speech e now now' job) = Inr (r\<lparr>r_id := []\<rparr>) \<and>
             r_audio_url (r\<lparr>r_id := []\<rparr>) = Some (tts_audio_url e now job) \<and>
             status_code (fst (synthesize_speech e now now' job)) = 200"
proof -
  have a: "tts_outcome (e\<lparr>create_document := cd\<rparr>) now job = Inr ()"
    using assms(2) by simp
  show ?thesis
    using assms(3,4)
    by (simp add: synthesize_speech_ok [OF assms(1) a] synthesize_speech_ok [OF assms(1,2)]
        tts_audio_url_eq)
qed

theorem insert_failure_degrades_to_empty_id_witness:
  "fst (synthesize_speech env_ok t0 t1 job_hello) =
     Inr \<lparr>r_id = lit ''65f0c2a4e1b7d9a3c5e8f012'', r_text = lit ''Hello world'',
          r_voice_id = None, r_language = lit ''en'', r_format = lit ''wav'',
          r_status = lit ''completed'',
          r_audio_url = Some (lit ''/generated/tts_20240102030405000006.mp3''),
          r_created_at = Some (lit ''2024-01-02T03:04:05.812345'')\<rparr> \<and>
   fst (synthesize_speech env_insert_fails t0 t1 job_hello) =
     Inr \<lparr>r_id = [], r_text = lit ''Hello world'',
          r_voice_id = None, r_language = lit ''en'', r_format = lit ''wav'',
          r_status = lit ''completed'',
          r_audio_url = Some (lit ''/generated/tts_20240102030405000006.mp3''),
          r_created_at = Some (lit ''2024-01-02T03:04:05.812345'')\<rparr>"
proof -
  have h1: "strip (j_text job_hello) \<noteq> []"
    by (simp add: strip_hello lit_def)
  have h3: "create_document env_insert_fails (lit ''ttsjob'') (Dict (tts_doc env_insert_fails t0 job_hello)) =
      Inl (Exception (lit ''Database not available''))"
    by (simp add: env_insert_fails_def)
  have h4: "create_document env_ok (lit ''ttsjob'') (Dict (tts_doc env_insert_fails t0 job_hello)) =
      Inr (lit ''65f0c2a4e1b7d9a3c5e8f012'')"
    by (simp add: env_ok_def)
  have e: "env_insert_fails\<lparr>create_document := create_document env_ok\<rparr> = env_ok"
    by (simp add: env_insert_fails_def env_ok_def)
  have u: "tts_audio_url env_insert_fails t0 job_hello = lit ''/generated/tts_20240102030405000006.mp3''"
    by (simp add: tts_audio_url_eq strftime_t0 lit_def)
  from insert_failure_degrades_to_empty_id
    [where cd = "create_document env_ok" and now' = t1, OF h1 tts_outcome_insert_fails h3 h4]
  obtain r where r: "fst (synthesize_speech env_ok t0 t1 job_hello) = Inr r"
    "fst (synthesize_speech env_insert_fails t0 t1 job_hello) = Inr (r\<lparr>r_id := []\<rparr>)"
    unfolding e by blast
  have v: "fst (synthesize_speech env_ok t0 t1 job_hello) =
      Inr \<lparr>r_id = lit ''65f0c2a4e1b7d9a3c5e8f012'', r_text = lit ''Hello world'',
          r_voice_id = None, r_language = lit ''en'', r_format = lit ''wav'',
          r_status = lit ''completed'',
          r_audio_url = Some (lit ''/generated/tts_20240102030405000006.mp3''),
          r_created_at = Some (lit ''2024-01-02T03:04:05.812345'')\<rparr>"
    by (simp add: synthesize_speech_ok [OF h1 tts_outcome_ok] strip_hello isoformat_t1
        tts_audio_url_eq strftime_t0)
       (simp add: env_ok_def job_hello_def py_or_def lit_def)
  from r(1) v have "r = \<lparr>r_id = lit ''65f0c2a4e1b7d9a3c5e8f012'', r_text = lit ''Hello world'',
      r_voice_id = None, r_language = lit ''en'', r_format = lit ''wav'',
      r_status = lit ''completed'',
      r_audio_url = Some (lit ''/generated/tts_20240102030405000006.mp3''),
      r_created_at = Some (lit ''2024-01-02T03:04:05.812345'')\<rparr>"
    by simp
  with r v show ?thesis by simp
qed

text \<open>
  C2. When the engine raises (in the constructor or in \<^verbatim>\<open>save\<close>), the handler raises
  \<^verbatim>\<open>HTTPException(500)\<close> whose detail carries the message of the exception; the engine
  was called once and \<^verbatim>\<open>create_document\<close> not at all.
\<close>

theorem tts_failure_is_500_without_insert:
  assumes "strip (j_text job) \<noteq> []" and "tts_outcome e now job = Inl x"
  shows "fst (synthesize_speech e now now' job) =
           Inl (HTTPException 500 (lit ''TTS error: '' @ exn_str x)) \<and>
         status_code (fst (synthesize_speech e now now' job)) = 500 \<and>
         length (filter is_gTTS (snd (synthesize_speech e now now' job))) = 1 \<and>
         length (filter is_save (snd (synthesize_speech e now now' job))) \<le> 1 \<and>
         filter is_create_document (snd (synthesize_speech e now now' job)) = []"
  using synthesize_speech_raises [OF assms, of now'] by auto

theorem tts_failure_is_500_without_insert_witness:
  "fst (synthesize_speech env_tts_down t0 t1 job_hello) =
     Inl (HTTPException 500 (lit ''TTS error: Connection error'')) \<and>
   status_code (fst (synthesize_speech env_tts_down t0 t1 job_hello)) = 500 \<and>
   filter is_create_document (snd (synthesize_speech env_tts_down t0 t1 job_hello)) = []"
proof -
  have h1: "strip (j_text job_hello) \<noteq> []"
    by (simp add: strip_hello lit_def)
  show ?thesis
    using tts_failure_is_500_without_insert [OF h1 tts_outcome_down, of t1]
    by (simp add: lit_def)
qed

text \<open>
  C4, as stated, fails: the file name is a function of the clock reading alone, so two
  calls that read the same microsecond get the same name and the same \<open>audio_url\<close>.
  Here both calls name the file at \<open>t0\<close>; they answer at \<open>t1\<close> and \<open>t2\<close>.
\<close>

theorem same_clock_reading_same_audio_url:
  "fst (synthesize_speech env_ok t0 t1 job_hello) = Inr resp_hello \<and>
   fst (synthesize_speech env_ok t0 t2 job_hello) =
     Inr (resp_hello\<lparr>r_created_at := Some (lit ''2024-01-02T03:04:05.900000'')\<rparr>) \<and>
   r_audio_url (resp_hello\<lparr>r_created_at := Some (lit ''2024-01-02T03:04:05.900000'')\<rparr>) =
     r_audio_url resp_hello"
  by (simp add: synthesize_hello synthesize_hello_later)

text \<open>
  C4, amended. Two calls with the same input whose clock readings differ, be it only in
  the microsecond, produce distinct file names and distinct \<open>audio_url\<close>s.
\<close>

theorem distinct_clock_readings_distinct_names:
  assumes "valid_datetime n1" and "valid_datetime n2" and "n1 \<noteq> n2"
  shows "tts_fname e n1 job \<noteq> tts_fname e n2 job \<and>
         tts_audio_url e n1 job \<noteq> tts_audio_url e n2 job \<and>
         (\<forall>r1 r2. fst (synthesize_speech e n1 m1 job) = Inr r1 \<and>
                  fst (synthesize_speech e n2 m2 job) = Inr r2 \<longrightarrow>
                  r_audio_url r1 \<noteq> r_audio_url r2)"
proof -
  have s: "strftime n1 \<noteq> strftime n2"
    using strftime_inj [OF assms(1,2)] assms(3) by blast
  then have f: "tts_fname e n1 job \<noteq> tts_fname e n2 job"
    by (simp add: tts_fname_eq)
  from s have u: "tts_audio_url e n1 job \<noteq> tts_audio_url e n2 job"
    by (simp add: tts_audio_url_eq)
  have "r_audio_url r1 \<noteq> r_audio_url r2"
    if "fst (synthesize_speech e n1 m1 job) = Inr r1"
      and "fst (synthesize_speech e n2 m2 job) = Inr r2" for r1 r2
    using synthesize_speech_audio_url [OF that(1)] synthesize_speech_audio_url [OF that(2)] u
    by simp
  with f u show ?thesis by blast
qed

theorem distinct_clock_readings_distinct_names_witness:
  "second t0 = second t1 \<and> t0 \<noteq> t1 \<and>
   tts_fname env_ok t0 job_hello = lit ''tts_20240102030405000006.mp3'' \<and>
   tts_fname env_ok t1 job_hello \<noteq> lit ''tts_20240102030405000006.mp3'' \<and>
   tts_audio_url env_ok t0 job_hello \<noteq> tts_audio_url env_ok t1 job_hello"
proof -
  have d: "t0 \<noteq> t1" by (simp add: t0_def t1_def)
  have s: "second t0 = second t1" by (simp add: t0_def t1_def)
  have f0: "tts_fname env_ok t0 job_hello = lit ''tts_20240102030405000006.mp3''"
    by (simp add: tts_fname_eq strftime_t0 lit_def)
  from distinct_clock_readings_distinct_names [OF valid_t0 valid_t1 d, of env_ok job_hello]
  have n: "tts_fname env_ok t0 job_hello \<noteq> tts_fname env_ok t1 job_hello"
    and u: "tts_audio_url env_ok t0 job_hello \<noteq> tts_audio_url env_ok t1 job_hello"
    by blast+
  from n f0 have "tts_fname env_ok t1 job_hello \<noteq> lit ''tts_20240102030405000006.mp3''"
    by metis
  with d s f0 u show ?thesis by blast
qed

text \<open>
  C5. Whatever the requested format, the extension is \<^verbatim>\<open>mp3\<close>: the file name, the path
  handed to \<^verbatim>\<open>save\<close> and the \<open>audio_url\<close> of a response all end in \<^verbatim>\<open>.mp3\<close>.
\<close>

theorem extension_is_always_mp3:
  "tts_ext e job = lit ''mp3'' \<and>
   suffix (lit ''.mp3'') (tts_fname e now job) \<and>
   suffix (lit ''.mp3'') (tts_audio_url e now job) \<and>
   (\<forall>t l p. Call_save t l p \<in> set (snd (synthesize_speech e now now' job)) \<longrightarrow>
              suffix (lit ''.mp3'') p) \<and>
   (\<forall>r. fst (synthesize_speech e now now' job) = Inr r \<longrightarrow>
        (\<exists>u. r_audio_url r = Some u \<and> suffix (lit ''.mp3'') u))"
proof -
  have f: "suffix (lit ''.mp3'') (tts_fname e now job)"
    unfolding tts_fname_eq by (simp add: suffix_def)
  have u: "suffix (lit ''.mp3'') (tts_audio_url e now job)"
    unfolding tts_audio_url_eq by (simp add: suffix_def)
  have p: "suffix (lit ''.mp3'') (tts_fpath e now job)"
  proof -
    have "suffix (tts_fname e now job) (tts_fpath e now job)"
      by (simp add: tts_fpath_def os_path_join_def suffix_def)
    with f show ?thesis by (rule suffix_order.trans)
  qed
  have "suffix (lit ''.mp3'') q"
    if "Call_save t l q \<in> set (snd (synthesize_speech e now now' job))" for t l q
    using synthesize_speech_save_path [OF that] p by simp
  moreover have "\<exists>u. r_audio_url r = Some u \<and> suffix (lit ''.mp3'') u"
    if "fst (synthesize_speech e now now' job) = Inr r" for r
    using synthesize_speech_audio_url [OF that] u by simp
  ultimately show ?thesis using f u tts_ext_mp3 by blast
qed

theorem extension_is_always_mp3_witness:
  "j_format job_hello = lit ''wav'' \<and>
   fst (synthesize_speech env_ok t0 t1 job_hello) = Inr resp_hello \<and>
   r_audio_url resp_hello = Some (lit ''/generated/tts_20240102030405000006.mp3'') \<and>
   suffix (lit ''.mp3'') (lit ''/generated/tts_20240102030405000006.mp3'')"
proof -
  from extension_is_always_mp3 [of env_ok job_hello t0 t1] synthesize_hello
  have "\<exists>u. r_audio_url resp_hello = Some u \<and> suffix (lit ''.mp3'') u" by blast
  then show ?thesis
    by (simp add: synthesize_hello) (simp add: resp_hello_def job_hello_def)
qed

text \<open>
  C8. A request whose body validates, whose trimmed text is not empty and whose
  generation step succeeds is answered with status 200 and a response whose \<open>status\<close> is
  \<^verbatim>\<open>completed\<close>, whose \<open>audio_url\<close> is \<^verbatim>\<open>/generated/tts_\<close>, twenty digits of
  the clock reading, \<^verbatim>\<open>.mp3\<close>, and whose \<open>created_at\<close> is the reading taken when the
  response is built; the other fields are those of the job.
\<close>

theorem successful_synthesis_response:
  assumes "validate_TTSJob b = Some job"
    and "strip (j_text job) \<noteq> []"
    and "tts_outcome e now job = Inr ()"
  shows "\<exists>r. fst (post_tts e now now' b) = Inr r \<and>
             status_code (fst (post_tts e now now' b)) = 200 \<and>
             r_status r = lit ''completed'' \<and>
             r_audio_url r = Some (lit ''/generated/tts_'' @ strftime now @ lit ''.mp3'') \<and>
             length (strftime now) = 20 \<and>
             list_all (\<lambda>c. 48 \<le> c \<and> c \<le> 57) (strftime now) \<and>
             r_created_at r = Some (isoformat now') \<and>
             r_text r = strip (j_text job) \<and>
             r_voice_id r = j_voice_id job \<and>
             r_language r = py_or (j_language job) (lit ''en'') \<and>
             r_format r = py_or (j_format job) (lit ''mp3'') \<and>
             r_id r = (case create_document e (lit ''ttsjob'') (Dict (tts_doc e now job)) of
                         Inr i \<Rightarrow> i | Inl x \<Rightarrow> [])"
proof -
  have d: "list_all (\<lambda>c. 48 \<le> c \<and> c \<le> 57) (strftime now)"
    using digits_strftime by (simp add: list_all_iff)
  show ?thesis
    using d
    by (simp add: post_tts_def assms(1) synthesize_speech_ok [OF assms(2,3)] tts_audio_url_eq
        length_strftime)
qed

theorem successful_synthesis_response_witness:
  "validate_TTSJob body_hello = Some job_hello \<and>
   fst (post_tts env_ok t0 t1 body_hello) = Inr resp_hello \<and>
   status_code (fst (post_tts env_ok t0 t1 body_hello)) = 200 \<and>
   r_status resp_hello = lit ''completed''"
proof -
  have p: "fst (post_tts env_ok t0 t1 body_hello) = Inr resp_hello"
    by (simp add: post_tts_def validate_body_hello synthesize_hello)
  from successful_synthesis_response
    [OF validate_body_hello strip_hello_nonempty tts_outcome_ok, of t1]
  have "status_code (fst (post_tts env_ok t0 t1 body_hello)) = 200" by blast
  with p show ?thesis by (simp add: validate_body_hello) (simp add: resp_hello_def)
qed

subsection \<open>Blank text and the recorded format\<close>

lemma validate_TTSJob_None_iff:
  assumes "tb_text b = Val t"
  shows "validate_TTSJob b = None \<longleftrightarrow>
           (t = [] \<or> 2000 < length t \<or> tb_language b = Null \<or> tb_format b = Null)"
  using assms
  by (cases "tb_language b"; cases "tb_format b"; cases t)
     (auto simp: validate_TTSJob_def)

lemma validate_TTSJob_fields:
  assumes "validate_TTSJob b = Some job"
  shows "tb_text b = Val (j_text job) \<and>
         j_format job = (case tb_format b of Val f \<Rightarrow> f | _ \<Rightarrow> lit ''mp3'') \<and>
         j_language job = (case tb_language b of Val l \<Rightarrow> l | _ \<Rightarrow> lit ''en'')"
  using assms
  by (cases "tb_text b"; cases "tb_language b"; cases "tb_format b")
     (auto simp: validate_TTSJob_def split: if_splits)

text \<open>
  C3, as stated, fails on the status: an empty text is refused by the schema
  (\<^verbatim>\<open>min_length=1\<close>) before the handler runs, and the answer is 422, not 400.
\<close>

theorem empty_text_is_422:
  "fst (post_tts env_ok t0 t1 body_empty_text) = Inl RequestValidationError \<and>
   status_code (fst (post_tts env_ok t0 t1 body_empty_text)) = 422"
  by (simp add: post_tts_def validate_TTSJob_def body_empty_text_def)

text \<open>
  C3, amended. A request whose text is empty or only whitespace fails with a client
  error and no call to any collaborator (no engine call, hence no file written, and no
  insert): with 422 when the body does not validate (empty text, more than 2000
  characters), with 400 and \<^verbatim>\<open>Text is required\<close> otherwise. The handler itself answers
  400 without any call whenever the trimmed text is empty.
\<close>

theorem blank_text_rejected_before_tts:
  assumes "tb_text b = Val t" and "\<forall>c\<in>set t. isspace c"
  shows "snd (post_tts e now now' b) = [] \<and>
         fst (post_tts e now now' b) =
           (if t = [] \<or> 2000 < length t \<or> tb_language b = Null \<or> tb_format b = Null
            then Inl RequestValidationError
            else Inl (HTTPException 400 (lit ''Text is required''))) \<and>
         status_code (fst (post_tts e now now' b)) =
           (if t = [] \<or> 2000 < length t \<or> tb_language b = Null \<or> tb_format b = Null
            then 422 else 400) \<and>
         synthesize_speech e now now' \<lparr>j_text = t, j_voice_id = v, j_language = l, j_format = f\<rparr> =
           (Inl (HTTPException 400 (lit ''Text is required'')), [])"
proof -
  have blank: "strip t = []" using assms(2) by (simp add: strip_empty_iff)
  have h: "synthesize_speech e now now' \<lparr>j_text = t, j_voice_id = v, j_language = l, j_format = f\<rparr> =
           (Inl (HTTPException 400 (lit ''Text is required'')), [])"
    by (rule synthesize_speech_blank) (simp add: blank)
  show ?thesis
  proof (cases "validate_TTSJob b")
    case None
    then have "t = [] \<or> 2000 < length t \<or> tb_language b = Null \<or> tb_format b = Null"
      using validate_TTSJob_None_iff [OF assms(1)] by simp
    with None h show ?thesis by (simp add: post_tts_def)
  next
    case (Some job)
    then have n: "\<not> (t = [] \<or> 2000 < length t \<or> tb_language b = Null \<or> tb_format b = Null)"
      using validate_TTSJob_None_iff [OF assms(1)] by simp
    from Some assms(1) have "j_text job = t"
      using validate_TTSJob_fields by fastforce
    with blank have "synthesize_speech e now now' job =
        (Inl (HTTPException 400 (lit ''Text is required'')), [])"
      by (simp add: synthesize_speech_blank)
    with Some n h show ?thesis by (simp add: post_tts_def)
  qed
qed

theorem blank_text_rejected_before_tts_witness:
  "post_tts env_ok t0 t1 body_spaces =
     (Inl (HTTPException 400 (lit ''Text is required'')), []) \<and>
   status_code (fst (post_tts env_ok t0 t1 body_spaces)) = 400"
proof -
  have a: "tb_text body_spaces = Val (lit ''   '')" by (simp add: body_spaces_def)
  have b: "\<forall>c\<in>set (lit ''   ''). isspace c" by (simp add: lit_def isspace_def)
  have c: "lit ''   '' \<noteq> []" "\<not> 2000 < length (lit ''   '')"
    "tb_language body_spaces \<noteq> Null" "tb_format body_spaces \<noteq> Null"
    by (simp_all add: lit_def body_spaces_def)
  from blank_text_rejected_before_tts [OF a b, of env_ok t0 t1] c
  have "snd (post_tts env_ok t0 t1 body_spaces) = []"
    and "fst (post_tts env_ok t0 t1 body_spaces) = Inl (HTTPException 400 (lit ''Text is required''))"
    by simp_all
  then show ?thesis by (simp add: prod_eq_iff)
qed

text \<open>
  C10, as stated, fails on an empty format: \<^verbatim>\<open>job.format or "mp3"\<close> records
  \<^verbatim>\<open>mp3\<close>, not the value the client sent.
\<close>

theorem empty_format_is_recorded_as_mp3:
  "tb_format body_empty_format = Val [] \<and>
   fst (post_tts env_ok t0 t1 body_empty_format) = Inr (resp_hello\<lparr>r_format := lit ''mp3''\<rparr>)"
proof -
  let ?job = "job_hello\<lparr>j_format := []\<rparr>"
  have v: "validate_TTSJob body_empty_format = Some ?job"
    by (simp add: validate_TTSJob_def body_empty_format_def job_hello_def lit_def)
  have s: "strip (j_text ?job) = lit ''Hello world''"
    using strip_hello by simp
  then have n: "strip (j_text ?job) \<noteq> []" by (simp add: lit_def)
  have o: "tts_outcome env_ok t0 ?job = Inr ()"
    by (simp add: tts_outcome_def env_ok_def)
  have "fst (synthesize_speech env_ok t0 t1 ?job) = Inr (resp_hello\<lparr>r_format := lit ''mp3''\<rparr>)"
    by (simp add: synthesize_speech_ok [OF n o] strip_hello isoformat_t1 tts_audio_url_eq
        strftime_t0 resp_hello_def)
       (simp add: env_ok_def job_hello_def py_or_def lit_def)
  with v show ?thesis by (simp add: post_tts_def) (simp add: body_empty_format_def)
qed

text \<open>
  C10, amended. The job document handed to the store and the response carry the same
  format: the requested one verbatim when it is a non-empty string, \<^verbatim>\<open>mp3\<close> when it
  is absent or empty. The extension is \<^verbatim>\<open>mp3\<close> all the same, so a recorded format
  other than \<^verbatim>\<open>mp3\<close> disagrees with the artifact. Document and response carry the
  trimmed text.
\<close>

theorem recorded_format_and_text:
  assumes "validate_TTSJob b = Some job"
    and "strip (j_text job) \<noteq> []"
    and "tts_outcome e now job = Inr ()"
  shows "\<exists>r. fst (post_tts e now now' b) = Inr r \<and>
             Call_create_document (lit ''ttsjob'') (Dict (tts_doc e now job))
               \<in> set (snd (post_tts e now now' b)) \<and>
             r_format r =
               (case tb_format b of Val f \<Rightarrow> if f = [] then lit ''mp3'' else f
                | _ \<Rightarrow> lit ''mp3'') \<and>
             map_of (tts_doc e now job) (lit ''format'') = Some (PyStr (r_format r)) \<and>
             tts_ext e job = lit ''mp3'' \<and>
             (r_format r \<noteq> lit ''mp3'' \<longrightarrow> r_format r \<noteq> tts_ext e job) \<and>
             tb_text b = Val (j_text job) \<and>
             r_text r = strip (j_text job) \<and>
             map_of (tts_doc e now job) (lit ''text'') = Some (PyStr (strip (j_text job)))"
proof -
  note f = validate_TTSJob_fields [OF assms(1)]
  have fmt: "py_or (j_format job) (lit ''mp3'') =
      (case tb_format b of Val f \<Rightarrow> if f = [] then lit ''mp3'' else f | _ \<Rightarrow> lit ''mp3'')"
    using f by (cases "tb_format b") (simp_all add: py_or_def lit_def)
  have d1: "map_of (tts_doc e now job) (lit ''format'') =
      Some (PyStr (py_or (j_format job) (lit ''mp3'')))"
    by (simp add: tts_doc_def lit_def)
  have d2: "map_of (tts_doc e now job) (lit ''text'') = Some (PyStr (strip (j_text job)))"
    by (simp add: tts_doc_def lit_def)
  show ?thesis
    using f d1 d2 fmt
    by (simp add: post_tts_def assms(1) synthesize_speech_ok [OF assms(2,3)] tts_ext_mp3)
qed

theorem recorded_format_and_text_witness:
  "fst (post_tts env_ok t0 t1 body_hello) = Inr resp_hello \<and>
   tb_format body_hello = Val (lit ''wav'') \<and> r_format resp_hello = lit ''wav'' \<and>
   map_of (tts_doc env_ok t0 job_hello) (lit ''format'') = Some (PyStr (lit ''wav'')) \<and>
   tts_ext env_ok job_hello = lit ''mp3'' \<and>
   r_text resp_hello = lit ''Hello world''"
proof -
  have p: "fst (post_tts env_ok t0 t1 body_hello) = Inr resp_hello"
    by (simp add: post_tts_def validate_body_hello synthesize_hello)
  from recorded_format_and_text
    [OF validate_body_hello strip_hello_nonempty tts_outcome_ok, of t1] p
  have "map_of (tts_doc env_ok t0 job_hello) (lit ''format'') = Some (PyStr (r_format resp_hello))"
    and "tts_ext env_ok job_hello = lit ''mp3''"
    by auto
  moreover have "r_format resp_hello = lit ''wav''" "r_text resp_hello = lit ''Hello world''"
    "tb_format body_hello = Val (lit ''wav'')"
    by (simp_all add: resp_hello_def body_hello_def)
  ultimately show ?thesis using p by simp
qed

subsection \<open>Voices and jobs\<close>

lemma validate_Voice_None_iff:
  "validate_Voice e b = None \<longleftrightarrow>
     (vb_name b = Missing \<or> vb_name b = Null \<or> vb_language b = Missing \<or> vb_language b = Null \<or>
      (\<exists>u. vb_avatar_url b = Val u \<and> \<not> is_http_url e u))"
  by (cases "vb_name b"; cases "vb_language b"; cases "vb_avatar_url b")
     (auto simp: validate_Voice_def)

lemma lit_id_neq: "lit ''id'' \<noteq> lit ''_id''"
  by (simp add: lit_def)

lemma expose_id_with_id:
  assumes "map_of j (lit ''_id'') = Some v"
  shows "expose_id j = AList.update (lit ''id'') (PyStr (py_str v)) (AList.delete (lit ''_id'') j)"
  using assms by (simp add: expose_id_def dict_contains_def dict_set_def dict_pop_def)

lemma expose_id_keys:
  assumes "map_of j (lit ''_id'') = Some v"
  shows "map_of (expose_id j) (lit ''id'') = Some (PyStr (py_str v)) \<and>
         map_of (expose_id j) (lit ''_id'') = None"
  using lit_id_neq
  by (simp add: expose_id_with_id [OF assms] update_conv delete_conv)

text \<open>
  C7, as stated, fails on the empty name: \<open>name\<close> is a required string with no length
  constraint, so a voice named with the empty string validates and is inserted.
\<close>

theorem empty_voice_name_is_inserted:
  "post_voices env_ok body_unnamed_voice =
     (Inr (lit ''65f0c2a4e1b7d9a3c5e8f012''),
      [Call_create_document (lit ''voice'')
         (Model \<lparr>v_name = [], v_description = None, v_language = lit ''en'',
                 v_avatar_url = None, v_samples = Some []\<rparr>)])"
  by (simp add: post_voices_def validate_Voice_def body_unnamed_voice_def create_voice_def
      env_ok_def)

text \<open>
  C7, amended. A voice body is refused exactly when \<open>name\<close> or \<open>language\<close> is missing
  (absent or \<^verbatim>\<open>null\<close>) or the avatar is not a URL; a refused body is answered with the
  client error 422 and no call to the store. The name is a required string; its content
  is not constrained.
\<close>

theorem voice_without_name_or_language_rejected:
  "(validate_Voice e b = None \<longleftrightarrow>
      (vb_name b = Missing \<or> vb_name b = Null \<or> vb_language b = Missing \<or>
       vb_language b = Null \<or> (\<exists>u. vb_avatar_url b = Val u \<and> \<not> is_http_url e u))) \<and>
   (vb_name b = Missing \<or> vb_name b = Null \<or> vb_language b = Missing \<or> vb_language b = Null
      \<longrightarrow> post_voices e b = (Inl RequestValidationError, []) \<and>
          status_code (fst (post_voices e b)) = 422)"
proof -
  have "post_voices e b = (Inl RequestValidationError, []) \<and>
        status_code (fst (post_voices e b)) = 422"
    if "vb_name b = Missing \<or> vb_name b = Null \<or> vb_language b = Missing \<or> vb_language b = Null"
  proof -
    from that have "validate_Voice e b = None"
      using validate_Voice_None_iff by blast
    then show ?thesis by (simp add: post_voices_def)
  qed
  with validate_Voice_None_iff show ?thesis by blast
qed

theorem voice_without_name_or_language_rejected_witness:
  "vb_name body_nameless_voice = Missing \<and>
   post_voices env_ok body_nameless_voice = (Inl RequestValidationError, []) \<and>
   status_code (fst (post_voices env_ok body_nameless_voice)) = 422"
proof -
  have m: "vb_name body_nameless_voice = Missing" by (simp add: body_nameless_voice_def)
  with voice_without_name_or_language_rejected [of env_ok body_nameless_voice]
  show ?thesis by blast
qed

text \<open>
  C6. The default list has four voices with pairwise distinct names, descriptions,
  languages and avatars. \<^verbatim>\<open>list_voices\<close> returns it when \<^verbatim>\<open>db\<close> is \<^verbatim>\<open>None\<close>,
  when \<^verbatim>\<open>get_documents\<close> raises and when it returns no document; when the store is
  present and returns at least one document, the result is those documents, each without
  its \<^verbatim>\<open>_id\<close> and otherwise unchanged.
\<close>

theorem list_voices_fallback_or_stored:
  "length DEFAULT_VOICES = 4 \<and>
   list_all (\<lambda>v. map fst v = [lit ''name'', lit ''description'', lit ''language'', lit ''avatar_url''])
     DEFAULT_VOICES \<and>
   distinct (map (\<lambda>v. map_of v (lit ''name'')) DEFAULT_VOICES) \<and>
   distinct (map (\<lambda>v. map_of v (lit ''description'')) DEFAULT_VOICES) \<and>
   distinct (map (\<lambda>v. map_of v (lit ''language'')) DEFAULT_VOICES) \<and>
   distinct (map (\<lambda>v. map_of v (lit ''avatar_url'')) DEFAULT_VOICES) \<and>
   (\<not> db_present e \<longrightarrow> list_voices e = (DEFAULT_VOICES, [])) \<and>
   (\<forall>x. get_documents e (lit ''voice'') None = Inl x \<longrightarrow> fst (list_voices e) = DEFAULT_VOICES) \<and>
   (get_documents e (lit ''voice'') None = Inr [] \<longrightarrow> fst (list_voices e) = DEFAULT_VOICES) \<and>
   (\<forall>vs. db_present e \<and> get_documents e (lit ''voice'') None = Inr vs \<and> vs \<noteq> [] \<longrightarrow>
      fst (list_voices e) = map (dict_pop (lit ''_id'')) vs \<and> fst (list_voices e) \<noteq> []) \<and>
   (\<forall>v k. k \<noteq> lit ''_id'' \<longrightarrow> map_of (dict_pop (lit ''_id'') v) k = map_of v k) \<and>
   (\<forall>v. map_of (dict_pop (lit ''_id'') v) (lit ''_id'') = None)"
proof -
  have c1: "length DEFAULT_VOICES = 4" by (simp add: DEFAULT_VOICES_def)
  have c2: "list_all (\<lambda>v. map fst v =
      [lit ''name'', lit ''description'', lit ''language'', lit ''avatar_url'']) DEFAULT_VOICES"
    by (simp add: DEFAULT_VOICES_def voice_dict_def)
  have k: "lit ''name'' = [110, 97, 109, 101]" "lit ''description'' = [100, 101, 115, 99, 114, 105, 112, 116, 105, 111, 110]"
    "lit ''language'' = [108, 97, 110, 103, 117, 97, 103, 101]"
    "lit ''avatar_url'' = [97, 118, 97, 116, 97, 114, 95, 117, 114, 108]"
    by (simp_all add: lit_def)
  have c3: "distinct (map (\<lambda>v. map_of v (lit ''name'')) DEFAULT_VOICES)"
    by (simp add: DEFAULT_VOICES_def voice_dict_def k) (simp add: lit_def)
  have c4: "distinct (map (\<lambda>v. map_of v (lit ''description'')) DEFAULT_VOICES)"
    by (simp add: DEFAULT_VOICES_def voice_dict_def k) (simp add: lit_def)
  have c5: "distinct (map (\<lambda>v. map_of v (lit ''language'')) DEFAULT_VOICES)"
    by (simp add: DEFAULT_VOICES_def voice_dict_def k) (simp add: lit_def)
  have c6: "distinct (map (\<lambda>v. map_of v (lit ''avatar_url'')) DEFAULT_VOICES)"
    by (simp add: DEFAULT_VOICES_def voice_dict_def k) (simp add: lit_def)
  have a: "\<not> db_present e \<longrightarrow> list_voices e = (DEFAULT_VOICES, [])"
    by (simp add: list_voices_def)
  have b: "\<forall>x. get_documents e (lit ''voice'') None = Inl x \<longrightarrow> fst (list_voices e) = DEFAULT_VOICES"
    by (auto simp: list_voices_def)
  have c: "get_documents e (lit ''voice'') None = Inr [] \<longrightarrow> fst (list_voices e) = DEFAULT_VOICES"
    by (auto simp: list_voices_def)
  have d: "\<forall>vs. db_present e \<and> get_documents e (lit ''voice'') None = Inr vs \<and> vs \<noteq> [] \<longrightarrow>
      fst (list_voices e) = map (dict_pop (lit ''_id'')) vs \<and> fst (list_voices e) \<noteq> []"
    by (auto simp: list_voices_def Let_def)
  have f: "\<forall>v k. k \<noteq> lit ''_id'' \<longrightarrow> map_of (dict_pop (lit ''_id'') v) k = map_of v k"
    by (simp add: dict_pop_def delete_conv)
  have g: "\<forall>v. map_of (dict_pop (lit ''_id'') v) (lit ''_id'') = None"
    by (simp add: dict_pop_def delete_conv)
  from c1 c2 c3 c4 c5 c6 a b c d f g show ?thesis by blast
qed

theorem list_voices_fallback_or_stored_witness:
  "fst (list_voices env_ok) = DEFAULT_VOICES \<and>
   fst (list_voices env_db_down) = DEFAULT_VOICES \<and>
   fst (list_voices (env_ok\<lparr>db_present := False\<rparr>)) = DEFAULT_VOICES \<and>
   fst (list_voices env_one_voice) =
     [[(lit ''name'', PyStr (lit ''Luna'')), (lit ''language'', PyStr (lit ''fr''))]]"
proof -
  note t = list_voices_fallback_or_stored
  have 1: "get_documents env_ok (lit ''voice'') None = Inr []" by (simp add: env_ok_def)
  have 2: "get_documents env_db_down (lit ''voice'') None =
      Inl (Exception (lit ''Database not available''))"
    by (simp add: env_db_down_def)
  have 3: "\<not> db_present (env_ok\<lparr>db_present := False\<rparr>)" by simp
  have 4: "db_present env_one_voice \<and>
      get_documents env_one_voice (lit ''voice'') None = Inr [stored_voice] \<and> [stored_voice] \<noteq> []"
    by (simp add: env_one_voice_def env_ok_def)
  have 5: "map (dict_pop (lit ''_id'')) [stored_voice] =
      [[(lit ''name'', PyStr (lit ''Luna'')), (lit ''language'', PyStr (lit ''fr''))]]"
    by (simp add: stored_voice_def dict_pop_def lit_def)
  from t [of env_ok] 1 have a: "fst (list_voices env_ok) = DEFAULT_VOICES" by blast
  from t [of env_db_down] 2 have b: "fst (list_voices env_db_down) = DEFAULT_VOICES" by blast
  from t [of "env_ok\<lparr>db_present := False\<rparr>"] 3
  have c: "fst (list_voices (env_ok\<lparr>db_present := False\<rparr>)) = DEFAULT_VOICES" by simp
  from t [of env_one_voice] 4
  have "fst (list_voices env_one_voice) = map (dict_pop (lit ''_id'')) [stored_voice]" by blast
  with a b c 5 show ?thesis by simp
qed

lemma expose_id_without_id:
  assumes "map_of j (lit ''_id'') = None"
  shows "expose_id j = j"
  using assms by (simp add: expose_id_def dict_contains_def)

lemma expose_id_other_keys:
  assumes "k \<noteq> lit ''id''" and "k \<noteq> lit ''_id''"
  shows "map_of (expose_id j) k = map_of j k"
proof (cases "map_of j (lit ''_id'')")
  case None
  then show ?thesis by (simp add: expose_id_without_id)
next
  case (Some v)
  from assms show ?thesis
    by (simp add: expose_id_with_id [OF Some] update_conv delete_conv)
qed

text \<open>
  C9. \<^verbatim>\<open>list_jobs\<close> passes \<open>limit\<close> (20 when the query has none) to
  \<^verbatim>\<open>get_documents\<close> and returns one record for each document it gets, so over a
  store that returns the first \<open>limit\<close> stored jobs the answer has at most \<open>limit\<close>
  records; in each record the \<^verbatim>\<open>_id\<close> the store assigned is replaced by \<^verbatim>\<open>id\<close>, its
  string; every other key of a record keeps the value the stored document has, and a
  document without \<^verbatim>\<open>_id\<close> is returned as it is; when \<^verbatim>\<open>get_documents\<close> raises, the
  answer is the empty list.
\<close>

theorem list_jobs_limit_ids_and_errors:
  "(\<forall>x. get_documents e (lit ''ttsjob'') (Some limit) = Inl x \<longrightarrow> fst (list_jobs e limit) = []) \<and>
   (\<forall>docs. get_documents e (lit ''ttsjob'') (Some limit) = Inr docs \<longrightarrow>
      fst (list_jobs e limit) = map expose_id docs \<and>
      length (fst (list_jobs e limit)) = length docs) \<and>
   (0 \<le> limit \<and>
    get_documents e (lit ''ttsjob'') (Some limit) = Inr (find_spec stored (Some limit)) \<longrightarrow>
      fst (list_jobs e limit) = map expose_id (take (nat limit) stored) \<and>
      int (length (fst (list_jobs e limit))) \<le> limit \<and>
      length (fst (list_jobs e limit)) = min (nat limit) (length stored)) \<and>
   (\<forall>j v. map_of j (lit ''_id'') = Some v \<longrightarrow>
      map_of (expose_id j) (lit ''id'') = Some (PyStr (py_str v)) \<and>
      map_of (expose_id j) (lit ''_id'') = None) \<and>
   (\<forall>j k. k \<noteq> lit ''id'' \<and> k \<noteq> lit ''_id'' \<longrightarrow> map_of (expose_id j) k = map_of j k) \<and>
   (\<forall>j. map_of j (lit ''_id'') = None \<longrightarrow> expose_id j = j) \<and>
   get_jobs e None = list_jobs e 20 \<and>
   (\<forall>n. get_jobs e (Some n) = list_jobs e n)"
proof -
  have a: "\<forall>x. get_documents e (lit ''ttsjob'') (Some limit) = Inl x \<longrightarrow>
      fst (list_jobs e limit) = []"
    by (simp add: list_jobs_def)
  have b: "\<forall>docs. get_documents e (lit ''ttsjob'') (Some limit) = Inr docs \<longrightarrow>
      fst (list_jobs e limit) = map expose_id docs \<and>
      length (fst (list_jobs e limit)) = length docs"
    by (simp add: list_jobs_def)
  have c: "fst (list_jobs e limit) = map expose_id (take (nat limit) stored) \<and>
      int (length (fst (list_jobs e limit))) \<le> limit \<and>
      length (fst (list_jobs e limit)) = min (nat limit) (length stored)"
    if "0 \<le> limit"
      and "get_documents e (lit ''ttsjob'') (Some limit) = Inr (find_spec stored (Some limit))"
  proof -
    from that(2) have r: "fst (list_jobs e limit) = map expose_id (take (nat limit) stored)"
      by (simp add: list_jobs_def find_spec_def)
    then have l: "length (fst (list_jobs e limit)) = min (nat limit) (length stored)"
      by (simp add: min.commute)
    with that(1) have "int (length (fst (list_jobs e limit))) \<le> limit" by linarith
    with r l show ?thesis by blast
  qed
  have d: "\<forall>j v. map_of j (lit ''_id'') = Some v \<longrightarrow>
      map_of (expose_id j) (lit ''id'') = Some (PyStr (py_str v)) \<and>
      map_of (expose_id j) (lit ''_id'') = None"
    using expose_id_keys by blast
  have k: "\<forall>j k. k \<noteq> lit ''id'' \<and> k \<noteq> lit ''_id'' \<longrightarrow> map_of (expose_id j) k = map_of j k"
    using expose_id_other_keys by blast
  have u: "\<forall>j. map_of j (lit ''_id'') = None \<longrightarrow> expose_id j = j"
    using expose_id_without_id by blast
  have f: "get_jobs e None = list_jobs e 20" "\<forall>n. get_jobs e (Some n) = list_jobs e n"
    by (simp_all add: get_jobs_def)
  from a b c d k u f show ?thesis by blast
qed

theorem list_jobs_limit_ids_and_errors_witness:
  "fst (list_jobs env_five_jobs 2) =
     [[(lit ''text'', PyStr (lit ''one'')), (lit ''status'', PyStr (lit ''completed'')),
       (lit ''id'', PyStr (lit ''a1''))],
      [(lit ''text'', PyStr (lit ''two'')), (lit ''status'', PyStr (lit ''completed'')),
       (lit ''id'', PyStr (lit ''a2''))]] \<and>
   int (length (fst (list_jobs env_five_jobs 2))) \<le> 2 \<and>
   fst (list_jobs env_db_down 2) = []"
proof -
  note t = list_jobs_limit_ids_and_errors
  have 1: "(0::int) \<le> 2 \<and>
      get_documents env_five_jobs (lit ''ttsjob'') (Some 2) = Inr (find_spec five_jobs (Some 2))"
    by (simp add: env_five_jobs_def env_ok_def)
  have 2: "get_documents env_db_down (lit ''ttsjob'') (Some 2) =
      Inl (Exception (lit ''Database not available''))"
    by (simp add: env_db_down_def)
  have 3: "map expose_id (take (nat 2) five_jobs) =
     [[(lit ''text'', PyStr (lit ''one'')), (lit ''status'', PyStr (lit ''completed'')),
       (lit ''id'', PyStr (lit ''a1''))],
      [(lit ''text'', PyStr (lit ''two'')), (lit ''status'', PyStr (lit ''completed'')),
       (lit ''id'', PyStr (lit ''a2''))]]"
    by (simp add: five_jobs_def stored_job_def expose_id_def dict_contains_def dict_set_def
        dict_pop_def lit_def)
  from t [of env_five_jobs 2 five_jobs] 1
  have a: "fst (list_jobs env_five_jobs 2) = map expose_id (take (nat 2) five_jobs)"
    and b: "int (length (fst (list_jobs env_five_jobs 2))) \<le> 2"
    by blast+
  from t [of env_db_down 2] 2 have c: "fst (list_jobs env_db_down 2) = []" by blast
  from a b c 3 show ?thesis by simp
qed

end
